theory Spec2Isabelle
  imports Main "HOL-Library.Word"
begin

section \<open>Values that cross the cache boundary\<close>

text \<open>
  A Go \<open>[]byte\<close> is a list of bytes; \<open>char\<close> is a byte. A \<open>time.Duration\<close> is an
  \<open>int64\<close> counting nanoseconds, and \<open>time.Second\<close> is the constant \<open>1000000000\<close>.
\<close>

type_synonym bytes = "char list"

type_synonym Duration = "64 word"

definition Second :: Duration where
  "Second = 1000000000"

text \<open>
  Go's \<open>error\<close> values, as far as the cache code can tell them apart: the sentinel
  \<open>redis.Nil\<close> (compared with \<open>==\<close> in \<open>RedisClient.Get\<close>), an error that only carries its
  text, and the value built by \<open>fmt.Errorf\<close> with the verb \<open>%w\<close>, which keeps the formatted
  message together with the error it wraps. A nil error is \<open>None\<close>.
\<close>

datatype error = RedisNil | ErrorString string | WrapError string error

fun Error :: "error \<Rightarrow> string" where
  "Error RedisNil = ''redis: nil''"
| "Error (ErrorString s) = s"
| "Error (WrapError msg e) = msg"

definition Errorf_w :: "string \<Rightarrow> error \<Rightarrow> error" where
  \<comment> \<open>\<open>fmt.Errorf(prefix + "%w", err)\<close>\<close>
  "Errorf_w prefix err = WrapError (prefix @ Error err) err"

text \<open>
  The value of type \<open>any\<close> that \<open>singleflight.Group.Do\<close> hands back: the nil interface, a
  \<open>[]byte\<close>, or a value of some other dynamic type (kept by the name \<open>%T\<close> prints).
\<close>

datatype any = AnyNil | AnyBytes bytes | AnyOther string

fun type_name :: "any \<Rightarrow> string" where
  \<comment> \<open>what the verb \<open>%T\<close> prints\<close>
  "type_name AnyNil = ''<nil>''"
| "type_name (AnyBytes b) = ''[]uint8''"
| "type_name (AnyOther n) = n"

text \<open>
  \<open>encoding/json\<close> for the value type \<open>T\<close> is a parameter of the engine:
  \<open>json.Marshal\<close> returns bytes and an error, \<open>json.Unmarshal\<close> writes into the value it
  is given and returns an error, and \<open>var value T\<close> is the zero value of \<open>T\<close>.
\<close>

record 't json =
  Marshal :: "'t \<Rightarrow> bytes \<times> error option"
  Unmarshal :: "bytes \<Rightarrow> 't \<Rightarrow> 't \<times> error option"
  zero_value :: 't

section \<open>The world outside the engine\<close>

text \<open>
  Everything the engine does to its surroundings is recorded, in order of occurrence.
\<close>

datatype event =
    RedisGet string
  | RedisSet string bytes Duration
  | CallbackCall
  | ExtraSetCall bytes
  | LogPrintln string

text \<open>
  The environment of the engine is the go-redis client and the server behind it. The
  server holds, for each key, the bytes and the expiration they were written with; the
  passing of time is not modelled, so an entry stays until it is overwritten. A command
  can fail (server unreachable, context cancelled): \<open>get_fault\<close> and \<open>set_fault\<close> are the
  errors that read and write commands meet, if any. A failed command leaves the stored
  entries as they were.
\<close>

record world =
  redis :: "string \<rightharpoonup> bytes \<times> Duration"
  get_fault :: "error option"
  set_fault :: "error option"
  trace :: "event list"

definition emit :: "event \<Rightarrow> world \<Rightarrow> world" where
  "emit ev w = w\<lparr>trace := trace w @ [ev]\<rparr>"

definition log_Println :: "string \<Rightarrow> world \<Rightarrow> world" where
  "log_Println s w = emit (LogPrintln s) w"

definition client_Get_Bytes :: "world \<Rightarrow> string \<Rightarrow> (bytes \<times> error option) \<times> world" where
  \<comment> \<open>\<open>c.client.Get(ctx, key).Bytes()\<close>: an absent key is reported as \<open>redis.Nil\<close>\<close>
  "client_Get_Bytes w key =
     (let w' = emit (RedisGet key) w in
      case get_fault w of
        Some e \<Rightarrow> (([], Some e), w')
      | None \<Rightarrow>
          (case redis w key of
             None \<Rightarrow> (([], Some RedisNil), w')
           | Some (b, ttl) \<Rightarrow> ((b, None), w')))"

definition client_Set_Err :: "world \<Rightarrow> string \<Rightarrow> bytes \<Rightarrow> Duration \<Rightarrow> error option \<times> world" where
  \<comment> \<open>\<open>c.client.Set(ctx, key, bytes, expiration).Err()\<close>: overwrites unconditionally\<close>
  "client_Set_Err w key b expiration =
     (let w' = emit (RedisSet key b expiration) w in
      case set_fault w of
        Some e \<Rightarrow> (Some e, w')
      | None \<Rightarrow> (None, w'\<lparr>redis := (redis w')(key \<mapsto> (b, expiration))\<rparr>))"

section \<open>redis.go: the client wrapper\<close>

definition RedisClient_Get :: "world \<Rightarrow> string \<Rightarrow> (bytes \<times> bool \<times> error option) \<times> world" where
  "RedisClient_Get w key =
     (let ((b, err), w') = client_Get_Bytes w key in
      if err = Some RedisNil then (([], False, None), w')
      else
        (case err of
           Some e \<Rightarrow> (([], False, Some (Errorf_w ''failed to get from redis: '' e)), w')
         | None \<Rightarrow> ((b, True, None), w')))"

definition RedisClient_Set ::
  "world \<Rightarrow> string \<Rightarrow> bytes \<Rightarrow> Duration \<Rightarrow> error option \<times> world" where
  "RedisClient_Set w key b expiration =
     (let (err, w') = client_Set_Err w key b expiration in
      case err of
        Some e \<Rightarrow> (Some (Errorf_w ''failed to set to redis: '' e), w')
      | None \<Rightarrow> (None, w'))"

section \<open>redis.go: the cache\<close>

text \<open>
  The fields of \<open>Cache[T]\<close>: \<open>client\<close> is a handle on the server (the server's state
  is in the \<open>world\<close>), \<open>expiration\<close> is the time to live of every entry written, and
  \<open>sfg\<close>, the in-flight table of \<open>singleflight\<close>, is empty whenever no call is running
  and is left out.
\<close>

record 'cl Cache =
  client :: 'cl
  expiration :: Duration

definition NewCache :: "'cl \<Rightarrow> Duration \<Rightarrow> 'cl Cache" where
  "NewCache cl exp = \<lparr>client = cl, expiration = exp\<rparr>"

definition log_if_err :: "error option \<Rightarrow> world \<Rightarrow> world" where
  \<comment> \<open>\<open>if err != nil { log.Println(err.Error()) }\<close>\<close>
  "log_if_err err w = (case err of Some e \<Rightarrow> log_Println (Error e) w | None \<Rightarrow> w)"

text \<open>
  The function literal that \<open>GetOrSet\<close> passes to \<open>sfg.Do\<close> (the leader pass). The
  callback is called with the context and returns a value and an error; the variadic
  \<open>extraSetFunc\<close> is a list, of which only the first element is ever called.
\<close>

definition GetOrSet_fn ::
  "'t json \<Rightarrow> 'cl Cache \<Rightarrow> 'ctx \<Rightarrow> string \<Rightarrow> ('ctx \<Rightarrow> 't \<times> error option) \<Rightarrow>
   (bytes \<Rightarrow> error option) list \<Rightarrow> world \<Rightarrow> (any \<times> error option) \<times> world" where
  "GetOrSet_fn js c ctx cacheKey callback extraSetFunc w =
     (let ((b, exist, err), w1) = RedisClient_Get w cacheKey;
          w2 = log_if_err err w1
      in if exist then ((AnyBytes b, None), w2)
         else
           (let w3 = emit CallbackCall w2;
                (t, err) = callback ctx
            in case err of
                 Some e \<Rightarrow> ((AnyNil, Some e), w3)
               | None \<Rightarrow>
                   (let (b, err) = Marshal js t
                    in case err of
                         Some e \<Rightarrow> ((AnyNil, Some e), w3)
                       | None \<Rightarrow>
                           (let (err, w4) = RedisClient_Set w3 cacheKey b (expiration c);
                                w5 = log_if_err err w4;
                                w6 = (if length extraSetFunc > 0
                                      then log_if_err ((extraSetFunc ! 0) b) (emit (ExtraSetCall b) w5)
                                      else w5)
                            in ((AnyBytes b, None), w6)))))"

text \<open>
  \<open>sfg.Do(key, fn)\<close> for a call that finds no computation of \<open>key\<close> in flight: it runs
  \<open>fn\<close> once and returns what \<open>fn\<close> returned. Callers that arrive while it runs do not
  run \<open>fn\<close>; each of them receives the same pair and continues with \<open>GetOrSet_tail\<close>.
\<close>

definition sfg_Do ::
  "string \<Rightarrow> (world \<Rightarrow> (any \<times> error option) \<times> world) \<Rightarrow> world \<Rightarrow> (any \<times> error option) \<times> world" where
  "sfg_Do key fn w = fn w"

text \<open>Lines 123 to 139 of \<open>GetOrSet\<close>: what every caller does with the pair from \<open>sfg.Do\<close>.\<close>

definition GetOrSet_tail :: "'t json \<Rightarrow> any \<times> error option \<Rightarrow> 't \<times> error option" where
  "GetOrSet_tail js r =
     (let (res, err) = r; val = zero_value js
      in case err of
           Some e \<Rightarrow> (val, Some e)
         | None \<Rightarrow>
             (case res of
                AnyBytes b \<Rightarrow>
                  (let (val', err) = Unmarshal js b val
                   in case err of Some e \<Rightarrow> (val', Some e) | None \<Rightarrow> (val', None))
              | _ \<Rightarrow>
                  (val, Some (ErrorString
                     (''failed to get from cache: invalid type '' @ type_name res)))))"

definition GetOrSet ::
  "'t json \<Rightarrow> 'cl Cache \<Rightarrow> 'ctx \<Rightarrow> string \<Rightarrow> ('ctx \<Rightarrow> 't \<times> error option) \<Rightarrow>
   (bytes \<Rightarrow> error option) list \<Rightarrow> world \<Rightarrow> ('t \<times> error option) \<times> world" where
  "GetOrSet js c ctx cacheKey callback extraSetFunc w =
     (let (r, w') = sfg_Do cacheKey (GetOrSet_fn js c ctx cacheKey callback extraSetFunc) w
      in (GetOrSet_tail js r, w'))"

text \<open>What a run added to the trace, and the cache writes among a list of events.\<close>

definition new_events :: "world \<Rightarrow> world \<Rightarrow> event list" where
  "new_events w w' = drop (length (trace w)) (trace w')"

fun is_RedisSet :: "event \<Rightarrow> bool" where
  "is_RedisSet (RedisSet k b d) = True"
| "is_RedisSet ev = False"

section \<open>Formatting\<close>

text \<open>
  \<open>strings.Join\<close>, and the decimal form that \<open>%v\<close> gives an \<open>int\<close>. The limit of a query
  is only printed, never computed with, so it is an unbounded integer here.
\<close>

fun Join :: "string list \<Rightarrow> string \<Rightarrow> string" where
  "Join [] sep = []"
| "Join [x] sep = x"
| "Join (x # xs) sep = x @ sep @ Join xs sep"

fun fmt_uint :: "nat \<Rightarrow> string" where
  "fmt_uint n =
     (if n < 10 then [''0123456789'' ! n]
      else fmt_uint (n div 10) @ [''0123456789'' ! (n mod 10)])"

declare fmt_uint.simps [simp del]

definition fmt_int :: "int \<Rightarrow> string" where
  "fmt_int i = (if i < 0 then CHR ''-'' # fmt_uint (nat (- i)) else fmt_uint (nat i))"

section \<open>The relational store\<close>

text \<open>
  The \<open>db\<close> interface of util.go (\<open>*sqlx.DB\<close> in redis.go): a query with its arguments
  fills the destination it is given and returns an error.
\<close>

record ('ctx, 't) db =
  GetContext :: "'ctx \<Rightarrow> 't \<Rightarrow> string \<Rightarrow> string list \<Rightarrow> 't \<times> error option"
  SelectContext :: "'ctx \<Rightarrow> 't \<Rightarrow> string \<Rightarrow> string list \<Rightarrow> 't \<times> error option"

definition selectColumns :: "string list \<Rightarrow> string" where
  \<comment> \<open>\<open>selectColumns := "*"; if len(columns) > 0 { selectColumns = strings.Join(columns, ", ") }\<close>\<close>
  "selectColumns columns = (if length columns > 0 then Join columns '', '' else ''*'')"

definition return_result :: "'t \<times> error option \<Rightarrow> 't \<times> error option" where
  \<comment> \<open>\<open>if err := ...; err != nil { return result, err }; return result, nil\<close>\<close>
  "return_result r = (case r of (result, Some e) \<Rightarrow> (result, Some e) | (result, None) \<Rightarrow> (result, None))"

section \<open>redis.go: the repository of package main\<close>

record ('ctx, 't, 'cl) redisRepository =
  db :: "('ctx, 't) db"
  cache :: "'cl Cache"

definition NewRedisRepository :: "('ctx, 't) db \<Rightarrow> 'cl \<Rightarrow> ('ctx, 't, 'cl) redisRepository" where
  "NewRedisRepository d cacheClient = \<lparr>db = d, cache = NewCache cacheClient (Second * 10)\<rparr>"

definition GetByColumn_cacheKey :: "string \<Rightarrow> string \<Rightarrow> string \<Rightarrow> string" where
  \<comment> \<open>\<open>fmt.Sprintf("%s:%s:%s", tableName, columnName, columnValue)\<close>\<close>
  "GetByColumn_cacheKey columnName columnValue tableName =
     tableName @ '':'' @ columnName @ '':'' @ columnValue"

definition GetByColumn_callback ::
  "'t \<Rightarrow> ('ctx, 't) db \<Rightarrow> string \<Rightarrow> string \<Rightarrow> string \<Rightarrow> string list \<Rightarrow> 'ctx \<Rightarrow> 't \<times> error option" where
  "GetByColumn_callback zero d columnName columnValue tableName columns ctx =
     (let result = zero;
          query = ''SELECT '' @ selectColumns columns @ '' FROM `'' @ tableName @ ''` WHERE ''
                  @ columnName @ '' = ?''
      in return_result (GetContext d ctx result query [columnValue]))"

definition GetByColumn ::
  "'t json \<Rightarrow> ('ctx, 't, 'cl) redisRepository \<Rightarrow> 'ctx \<Rightarrow> string \<Rightarrow> string \<Rightarrow> string \<Rightarrow>
   string list \<Rightarrow> world \<Rightarrow> ('t \<times> error option) \<times> world" where
  "GetByColumn js r ctx columnName columnValue tableName columns =
     GetOrSet js (cache r) ctx (GetByColumn_cacheKey columnName columnValue tableName)
       (GetByColumn_callback (zero_value js) (db r) columnName columnValue tableName columns) []"

definition GetById where
  "GetById js r ctx id' tableName columns = GetByColumn js r ctx ''id'' id' tableName columns"

definition GetByName where
  "GetByName js r ctx name tableName columns = GetByColumn js r ctx ''name'' name tableName columns"

definition GetByUserId where
  "GetByUserId js r ctx userId tableName columns =
     GetByColumn js r ctx ''user_id'' userId tableName columns"

section \<open>redis/util.go: the repository of package redis\<close>

text \<open>
  \<open>Cache\<close>, \<open>NewCache\<close> and \<open>GetOrSet\<close> of package redis are not in util.go. The helpers
  take them as parameters: \<open>newCache\<close> builds the engine from a client and an expiration,
  \<open>getOrSet\<close> is the engine's operation, and \<open>zero\<close> is the zero value of \<open>T\<close>.
\<close>

record ('ctx, 't, 'cache) RedisRepository =
  db :: "('ctx, 't) db"
  Cache :: 'cache

definition redis_NewRedisRepository ::
  "('cl \<Rightarrow> Duration \<Rightarrow> 'cache) \<Rightarrow> ('ctx, 't) db \<Rightarrow> 'cl \<Rightarrow> ('ctx, 't, 'cache) RedisRepository" where
  "redis_NewRedisRepository newCache d cacheClient =
     \<lparr>db = d, Cache = newCache cacheClient (Second * 10)\<rparr>"

type_synonym ('ctx, 't, 'cache, 'w) engine =
  "'cache \<Rightarrow> 'ctx \<Rightarrow> string \<Rightarrow> ('ctx \<Rightarrow> 't \<times> error option) \<Rightarrow> (bytes \<Rightarrow> error option) list \<Rightarrow>
   'w \<Rightarrow> ('t \<times> error option) \<times> 'w"

definition redis_GetByColumn ::
  "('ctx, 't, 'cache, 'w) engine \<Rightarrow> 't \<Rightarrow> ('ctx, 't, 'cache) RedisRepository \<Rightarrow> 'ctx \<Rightarrow>
   string \<Rightarrow> string \<Rightarrow> string \<Rightarrow> string list \<Rightarrow> 'w \<Rightarrow> ('t \<times> error option) \<times> 'w" where
  "redis_GetByColumn getOrSet zero r ctx columnName columnValue tableName columns =
     getOrSet (Cache r) ctx (GetByColumn_cacheKey columnName columnValue tableName)
       (GetByColumn_callback zero (RedisRepository.db r) columnName columnValue tableName columns) []"

definition redis_GetById where
  "redis_GetById getOrSet zero r ctx id' tableName columns =
     redis_GetByColumn getOrSet zero r ctx ''id'' id' tableName columns"

definition redis_GetByName where
  "redis_GetByName getOrSet zero r ctx name tableName columns =
     redis_GetByColumn getOrSet zero r ctx ''name'' name tableName columns"

definition redis_GetByUserId where
  "redis_GetByUserId getOrSet zero r ctx userId tableName columns =
     redis_GetByColumn getOrSet zero r ctx ''user_id'' userId tableName columns"

definition GetCountByColumn_cacheKey :: "string \<Rightarrow> string \<Rightarrow> string \<Rightarrow> string" where
  \<comment> \<open>\<open>fmt.Sprintf("%s:count:%s:%s", tableName, columnName, columnValue)\<close>\<close>
  "GetCountByColumn_cacheKey columnName columnValue tableName =
     tableName @ '':count:'' @ columnName @ '':'' @ columnValue"

definition GetCountByColumn_callback ::
  "'t \<Rightarrow> ('ctx, 't) db \<Rightarrow> string \<Rightarrow> string \<Rightarrow> string \<Rightarrow> 'ctx \<Rightarrow> 't \<times> error option" where
  "GetCountByColumn_callback zero d columnName columnValue tableName ctx =
     (let result = zero;
          query = ''SELECT COUNT(*) as count FROM `'' @ tableName @ ''` WHERE '' @ columnName
                  @ '' = ?''
      in return_result (GetContext d ctx result query [columnValue]))"

definition GetCountByColumn ::
  "('ctx, 't, 'cache, 'w) engine \<Rightarrow> 't \<Rightarrow> ('ctx, 't, 'cache) RedisRepository \<Rightarrow> 'ctx \<Rightarrow>
   string \<Rightarrow> string \<Rightarrow> string \<Rightarrow> 'w \<Rightarrow> ('t \<times> error option) \<times> 'w" where
  "GetCountByColumn getOrSet zero r ctx columnName columnValue tableName =
     getOrSet (Cache r) ctx (GetCountByColumn_cacheKey columnName columnValue tableName)
       (GetCountByColumn_callback zero (RedisRepository.db r) columnName columnValue tableName) []"

definition Select_cacheKey :: "string \<Rightarrow> string" where
  \<comment> \<open>\<open>fmt.Sprintf("%s:all", tableName)\<close>\<close>
  "Select_cacheKey tableName = tableName @ '':all''"

definition Select_callback ::
  "'t \<Rightarrow> ('ctx, 't) db \<Rightarrow> string \<Rightarrow> string list \<Rightarrow> 'ctx \<Rightarrow> 't \<times> error option" where
  "Select_callback zero d tableName columns ctx =
     (let results = zero;
          query = ''SELECT '' @ selectColumns columns @ '' FROM `'' @ tableName @ ''`''
      in return_result (SelectContext d ctx results query []))"

definition Select ::
  "('ctx, 't, 'cache, 'w) engine \<Rightarrow> 't \<Rightarrow> ('ctx, 't, 'cache) RedisRepository \<Rightarrow> 'ctx \<Rightarrow>
   string \<Rightarrow> string list \<Rightarrow> 'w \<Rightarrow> ('t \<times> error option) \<times> 'w" where
  "Select getOrSet zero r ctx tableName columns =
     getOrSet (Cache r) ctx (Select_cacheKey tableName)
       (Select_callback zero (RedisRepository.db r) tableName columns) []"

definition SelectByColumn_cacheKey :: "string \<Rightarrow> string \<Rightarrow> string \<Rightarrow> string" where
  \<comment> \<open>\<open>fmt.Sprintf("%s:%s:%s", tableName, columnName, columnValue)\<close>\<close>
  "SelectByColumn_cacheKey columnName columnValue tableName =
     tableName @ '':'' @ columnName @ '':'' @ columnValue"

definition SelectByColumn_callback ::
  "'t \<Rightarrow> ('ctx, 't) db \<Rightarrow> string \<Rightarrow> string \<Rightarrow> string \<Rightarrow> string list \<Rightarrow> 'ctx \<Rightarrow> 't \<times> error option" where
  "SelectByColumn_callback zero d columnName columnValue tableName columns ctx =
     (let results = zero;
          query = ''SELECT '' @ selectColumns columns @ '' FROM `'' @ tableName @ ''` WHERE `''
                  @ columnName @ ''` = ?''
      in return_result (SelectContext d ctx results query [columnValue]))"

definition SelectByColumn ::
  "('ctx, 't, 'cache, 'w) engine \<Rightarrow> 't \<Rightarrow> ('ctx, 't, 'cache) RedisRepository \<Rightarrow> 'ctx \<Rightarrow>
   string \<Rightarrow> string \<Rightarrow> string \<Rightarrow> string list \<Rightarrow> 'w \<Rightarrow> ('t \<times> error option) \<times> 'w" where
  "SelectByColumn getOrSet zero r ctx columnName columnValue tableName columns =
     getOrSet (Cache r) ctx (SelectByColumn_cacheKey columnName columnValue tableName)
       (SelectByColumn_callback zero (RedisRepository.db r) columnName columnValue tableName columns) []"

definition SelectByColumnWithLimit_cacheKey :: "string \<Rightarrow> string \<Rightarrow> string \<Rightarrow> int \<Rightarrow> string" where
  \<comment> \<open>\<open>fmt.Sprintf("%s:limit:%v", tableName, limit)\<close>\<close>
  "SelectByColumnWithLimit_cacheKey columnName columnValue tableName limit =
     tableName @ '':limit:'' @ fmt_int limit"

definition SelectByColumnWithLimit_callback ::
  "'t \<Rightarrow> ('ctx, 't) db \<Rightarrow> string \<Rightarrow> string \<Rightarrow> string \<Rightarrow> int \<Rightarrow> string list \<Rightarrow> 'ctx \<Rightarrow>
   't \<times> error option" where
  "SelectByColumnWithLimit_callback zero d columnName columnValue tableName limit columns ctx =
     (let results = zero;
          query = ''SELECT '' @ selectColumns columns @ '' FROM `'' @ tableName @ ''` WHERE ''
                  @ columnName @ '' = ? LIMIT '' @ fmt_int limit
      in return_result (SelectContext d ctx results query [columnValue]))"

definition SelectByColumnWithLimit ::
  "('ctx, 't, 'cache, 'w) engine \<Rightarrow> 't \<Rightarrow> ('ctx, 't, 'cache) RedisRepository \<Rightarrow> 'ctx \<Rightarrow>
   string \<Rightarrow> string \<Rightarrow> string \<Rightarrow> int \<Rightarrow> string list \<Rightarrow> 'w \<Rightarrow> ('t \<times> error option) \<times> 'w" where
  "SelectByColumnWithLimit getOrSet zero r ctx columnName columnValue tableName limit columns =
     getOrSet (Cache r) ctx (SelectByColumnWithLimit_cacheKey columnName columnValue tableName limit)
       (SelectByColumnWithLimit_callback zero (RedisRepository.db r) columnName columnValue
          tableName limit columns) []"

section \<open>Vocabulary of the statements\<close>

text \<open>
  The log lines an error leaves, the error a read or a write of the wrapper ends with in a
  given world, whether a read of a key ends with \<open>exist = false\<close>, the events of the hook
  step, and whether lines 129 to 132 of \<open>GetOrSet\<close> (the failed type assertion) are taken.
\<close>

definition err_log :: "error option \<Rightarrow> event list" where
  "err_log err = (case err of Some e \<Rightarrow> [LogPrintln (Error e)] | None \<Rightarrow> [])"

definition read_err :: "world \<Rightarrow> error option" where
  "read_err w =
     (case get_fault w of
        Some e \<Rightarrow> if e = RedisNil then None else Some (Errorf_w ''failed to get from redis: '' e)
      | None \<Rightarrow> None)"

definition set_err :: "world \<Rightarrow> error option" where
  "set_err w = map_option (Errorf_w ''failed to set to redis: '') (set_fault w)"

definition misses :: "world \<Rightarrow> string \<Rightarrow> bool" where
  "misses w key = (case RedisClient_Get w key of ((b, exist, err), w') \<Rightarrow> \<not> exist)"

definition hook_events :: "(bytes \<Rightarrow> error option) list \<Rightarrow> bytes \<Rightarrow> event list" where
  "hook_events ex b = (case ex of [] \<Rightarrow> [] | h # hs \<Rightarrow> ExtraSetCall b # err_log (h b))"

definition type_mismatch :: "any \<times> error option \<Rightarrow> bool" where
  "type_mismatch r =
     (case r of
        (res, Some e) \<Rightarrow> False
      | (res, None) \<Rightarrow> (case res of AnyBytes b \<Rightarrow> False | _ \<Rightarrow> True))"

section \<open>Concrete inputs\<close>

text \<open>
  Instances of the parameters for concrete runs. With \<open>T = json.RawMessage\<close> a value is
  its own compact JSON text, so both directions of \<open>raw_json\<close> copy the bytes;
  \<open>unsupported_json\<close> stands for a type that \<open>json.Marshal\<close> and \<open>json.Unmarshal\<close>
  reject, as they do channels and functions. \<open>empty_world\<close> is a reachable server with
  nothing stored, \<open>write_down\<close> one whose writes time out, \<open>read_down\<close> one whose reads
  are refused, and \<open>cached_world\<close> one that holds an entry under \<open>k\<close>. \<open>posts_db\<close>
  answers a query by the post ids of the user in its argument.
\<close>

definition raw_json :: "bytes json" where
  "raw_json = \<lparr>Marshal = (\<lambda>m. (m, None)), Unmarshal = (\<lambda>b v. (b, None)), zero_value = []\<rparr>"

definition unsupported_json :: "unit json" where
  "unsupported_json =
     \<lparr>Marshal = (\<lambda>v. ([], Some (ErrorString ''json: unsupported type''))),
      Unmarshal = (\<lambda>b v. (v, Some (ErrorString ''json: cannot unmarshal''))),
      zero_value = ()\<rparr>"

definition empty_world :: world where
  "empty_world = \<lparr>redis = Map.empty, get_fault = None, set_fault = None, trace = []\<rparr>"

definition write_down :: world where
  "write_down = empty_world\<lparr>set_fault := Some (ErrorString ''i/o timeout'')\<rparr>"

definition ten_seconds_cache :: "unit Cache" where
  "ten_seconds_cache = NewCache () (Second * 10)"

definition loader_ok :: "unit \<Rightarrow> bytes \<times> error option" where
  "loader_ok ctx = (''[1,2]'', None)"

definition hook_ok :: "bytes \<Rightarrow> error option" where
  "hook_ok b = None"

definition hook_failing :: "bytes \<Rightarrow> error option" where
  "hook_failing b = Some (ErrorString ''hook failed'')"

definition posts_db :: "(unit, bytes) db" where
  "posts_db =
     \<lparr>GetContext = (\<lambda>ctx dest query args. (dest, Some (ErrorString ''sql: no rows in result set''))),
      SelectContext = (\<lambda>ctx dest query args.
         (if args = [''1''] then ''[10,11]'' else if args = [''2''] then ''[20]'' else ''[]'', None))\<rparr>"

definition posts_repository :: "(unit, bytes, unit Cache) RedisRepository" where
  "posts_repository = redis_NewRedisRepository NewCache posts_db ()"

definition read_down :: world where
  "read_down = empty_world\<lparr>get_fault := Some (ErrorString ''dial tcp: connection refused'')\<rparr>"

definition cached_world :: world where
  "cached_world = empty_world\<lparr>redis := [''k'' \<mapsto> (''[1,2]'', Second * 10)]\<rparr>"

definition loader_failing :: "unit \<Rightarrow> bytes \<times> error option" where
  "loader_failing ctx = ([], Some (ErrorString ''sql: no rows in result set''))"

definition loader_unit :: "unit \<Rightarrow> unit \<times> error option" where
  "loader_unit ctx = ((), None)"

text \<open>
  \<open>hidden_json\<close> is \<open>encoding/json\<close> for a struct whose only field is an unexported
  \<open>int\<close> (\<open>type T struct{ n int }\<close>, a value being the content of \<open>n\<close>): unexported fields
  are skipped, so every value is encoded as \<open>{}\<close>, and decoding \<open>{}\<close> leaves the
  destination as it is. Only \<open>{}\<close> is ever decoded in the runs below.
\<close>

definition hidden_json :: "int json" where
  "hidden_json =
     \<lparr>Marshal = (\<lambda>v. (''{}'', None)),
      Unmarshal = (\<lambda>b v. if b = ''{}'' then (v, None)
                           else (v, Some (ErrorString ''json: cannot unmarshal''))),
      zero_value = 0\<rparr>"

definition loader_seven :: "unit \<Rightarrow> int \<times> error option" where
  "loader_seven ctx = (7, None)"

section \<open>Facts about the world and the wrapper\<close>

lemma emit_fields [simp]:
  "trace (emit ev w) = trace w @ [ev]" "redis (emit ev w) = redis w"
  "get_fault (emit ev w) = get_fault w" "set_fault (emit ev w) = set_fault w"
  by (simp_all add: emit_def)

lemma log_if_err_fields [simp]:
  "trace (log_if_err err w) = trace w @ err_log err" "redis (log_if_err err w) = redis w"
  "get_fault (log_if_err err w) = get_fault w" "set_fault (log_if_err err w) = set_fault w"
  by (simp_all add: log_if_err_def err_log_def log_Println_def split: option.splits)

lemma err_log_simps [simp]: "err_log None = []" "err_log (Some e) = [LogPrintln (Error e)]"
  by (simp_all add: err_log_def)

lemma hook_events_simps [simp]:
  "hook_events [] b = []" "hook_events (h # hs) b = ExtraSetCall b # err_log (h b)"
  by (simp_all add: hook_events_def)

lemma no_RedisSet_err_log [simp]: "filter is_RedisSet (err_log err) = []"
  by (cases err) simp_all

lemma count_err_log [simp]:
  "count_list (err_log err) CallbackCall = 0" "count_list (err_log err) (ExtraSetCall b) = 0"
  by (cases err; simp)+

lemma hook_events_facts [simp]:
  "count_list (hook_events ex b) CallbackCall = 0"
  "filter is_RedisSet (hook_events ex b) = []"
  by (cases ex; simp)+

lemma raw_json_simps:
  "Marshal raw_json m = (m, None)" "Unmarshal raw_json b v = (b, None)" "zero_value raw_json = []"
  by (simp_all add: raw_json_def)

lemma misses_iff: "misses w key \<longleftrightarrow> get_fault w \<noteq> None \<or> redis w key = None"
  by (auto simp add: misses_def RedisClient_Get_def client_Get_Bytes_def Let_def
      split: option.splits prod.splits)

lemma RedisClient_Get_found:
  "get_fault w = None \<Longrightarrow> redis w key = Some (b, ttl) \<Longrightarrow>
   RedisClient_Get w key = ((b, True, None), emit (RedisGet key) w)"
  by (simp add: RedisClient_Get_def client_Get_Bytes_def Let_def)

lemma RedisClient_Get_miss:
  "misses w key \<Longrightarrow> RedisClient_Get w key = (([], False, read_err w), emit (RedisGet key) w)"
  by (auto simp add: misses_def RedisClient_Get_def client_Get_Bytes_def Let_def read_err_def
      split: option.splits prod.splits)

lemma RedisClient_Set_eq:
  "RedisClient_Set w key b d =
     (map_option (Errorf_w ''failed to set to redis: '') (set_fault w),
      (emit (RedisSet key b d) w)
        \<lparr>redis := (if set_fault w = None then (redis w)(key \<mapsto> (b, d)) else redis w)\<rparr>)"
  by (simp add: RedisClient_Set_def client_Set_Err_def Let_def split: option.splits)

section \<open>The three ways through the leader pass\<close>

lemma GetOrSet_eq:
  "GetOrSet js c ctx key cb ex w =
     (GetOrSet_tail js (fst (GetOrSet_fn js c ctx key cb ex w)),
      snd (GetOrSet_fn js c ctx key cb ex w))"
  by (simp add: GetOrSet_def sfg_Do_def split: prod.splits)

lemma GetOrSet_snd: "snd (GetOrSet js c ctx key cb ex w) = snd (GetOrSet_fn js c ctx key cb ex w)"
  by (simp add: GetOrSet_eq)

lemma GetOrSet_fst:
  "fst (GetOrSet js c ctx key cb ex w) = GetOrSet_tail js (fst (GetOrSet_fn js c ctx key cb ex w))"
  by (simp add: GetOrSet_eq)

lemma GetOrSet_tail_bytes:
  "GetOrSet_tail js (AnyBytes b, None) = Unmarshal js b (zero_value js)"
  by (simp add: GetOrSet_tail_def split: prod.splits option.splits)

lemma GetOrSet_tail_err:
  "GetOrSet_tail js (res, Some e) = (zero_value js, Some e)"
  by (simp add: GetOrSet_tail_def)

lemma GetOrSet_fn_on_hit:
  assumes "get_fault w = None" and "redis w key = Some (b, ttl)"
  shows "GetOrSet_fn js c ctx key cb ex w = ((AnyBytes b, None), emit (RedisGet key) w)"
  by (simp add: GetOrSet_fn_def RedisClient_Get_found [OF assms] log_if_err_def)

lemma GetOrSet_fn_on_failure:
  assumes "misses w key"
      and "snd (cb ctx) = Some e
           \<or> (snd (cb ctx) = None \<and> snd (Marshal js (fst (cb ctx))) = Some e)"
  shows "GetOrSet_fn js c ctx key cb ex w =
           ((AnyNil, Some e), emit CallbackCall (log_if_err (read_err w) (emit (RedisGet key) w)))"
proof -
  obtain t cerr where cb: "cb ctx = (t, cerr)"
    by (cases "cb ctx")
  obtain b merr where ma: "Marshal js t = (b, merr)"
    by (cases "Marshal js t")
  from assms(2) show ?thesis
    by (auto simp add: GetOrSet_fn_def RedisClient_Get_miss [OF assms(1)] cb ma)
qed

lemma GetOrSet_fn_on_success:
  assumes "misses w key" and "cb ctx = (t, None)" and "Marshal js t = (b, None)"
  shows "fst (GetOrSet_fn js c ctx key cb ex w) = (AnyBytes b, None)"
    and "trace (snd (GetOrSet_fn js c ctx key cb ex w)) =
           trace w @ [RedisGet key] @ err_log (read_err w)
             @ [CallbackCall, RedisSet key b (expiration c)]
             @ err_log (set_err w) @ hook_events ex b"
    and "redis (snd (GetOrSet_fn js c ctx key cb ex w)) =
           (if set_fault w = None then (redis w)(key \<mapsto> (b, expiration c)) else redis w)"
proof -
  let ?w3 = "emit CallbackCall (log_if_err (read_err w) (emit (RedisGet key) w))"
  let ?w5 = "log_if_err (set_err w) (snd (RedisClient_Set ?w3 key b (expiration c)))"
  have run: "GetOrSet_fn js c ctx key cb ex w =
     ((AnyBytes b, None),
      (if length ex > 0 then log_if_err ((ex ! 0) b) (emit (ExtraSetCall b) ?w5) else ?w5))"
    by (simp add: GetOrSet_fn_def RedisClient_Get_miss [OF assms(1)] assms(2,3)
          RedisClient_Set_eq set_err_def Let_def)
  show "fst (GetOrSet_fn js c ctx key cb ex w) = (AnyBytes b, None)"
    by (simp add: run)
  show "trace (snd (GetOrSet_fn js c ctx key cb ex w)) =
           trace w @ [RedisGet key] @ err_log (read_err w)
             @ [CallbackCall, RedisSet key b (expiration c)]
             @ err_log (set_err w) @ hook_events ex b"
    unfolding run by (cases ex) (simp_all add: RedisClient_Set_eq)
  show "redis (snd (GetOrSet_fn js c ctx key cb ex w)) =
           (if set_fault w = None then (redis w)(key \<mapsto> (b, expiration c)) else redis w)"
    unfolding run by (cases ex) (simp_all add: RedisClient_Set_eq)
qed

lemma GetOrSet_fn_faults:
  "get_fault (snd (GetOrSet_fn js c ctx key cb ex w)) = get_fault w"
  "set_fault (snd (GetOrSet_fn js c ctx key cb ex w)) = set_fault w"
proof -
  obtain b0 exist gerr w1 where get: "RedisClient_Get w key = ((b0, exist, gerr), w1)"
    by (metis prod.collapse)
  from get have w1: "w1 = emit (RedisGet key) w"
    by (auto simp add: RedisClient_Get_def client_Get_Bytes_def Let_def
        split: option.splits prod.splits if_splits)
  obtain t cerr where cb: "cb ctx = (t, cerr)"
    by (cases "cb ctx")
  obtain b merr where ma: "Marshal js t = (b, merr)"
    by (cases "Marshal js t")
  show "get_fault (snd (GetOrSet_fn js c ctx key cb ex w)) = get_fault w"
    by (cases exist; cases cerr; cases merr)
       (simp_all add: GetOrSet_fn_def get w1 cb ma Let_def RedisClient_Set_eq)
  show "set_fault (snd (GetOrSet_fn js c ctx key cb ex w)) = set_fault w"
    by (cases exist; cases cerr; cases merr)
       (simp_all add: GetOrSet_fn_def get w1 cb ma Let_def RedisClient_Set_eq)
qed

lemma RedisSet_not_in_err_log [simp]: "RedisSet k b d \<notin> set (err_log err)"
  by (cases err) simp_all

lemma RedisSet_not_in_hook_events [simp]: "RedisSet k b d \<notin> set (hook_events ex b')"
  by (cases ex) simp_all

lemma GetOrSet_fn_writes:
  assumes "RedisSet k b dur \<in> set (new_events w (snd (GetOrSet_fn js c ctx key cb ex w)))"
  shows "k = key \<and> dur = expiration c"
proof (cases "misses w key")
  case False
  then obtain b0 ttl where "get_fault w = None" and "redis w key = Some (b0, ttl)"
    by (auto simp add: misses_iff)
  from GetOrSet_fn_on_hit [OF this, of js c ctx cb ex] assms show ?thesis
    by (simp add: new_events_def)
next
  case True
  obtain t cerr where cb: "cb ctx = (t, cerr)"
    by (cases "cb ctx")
  obtain b1 merr where ma: "Marshal js t = (b1, merr)"
    by (cases "Marshal js t")
  show ?thesis
  proof (cases "cerr = None \<and> merr = None")
    case True
    with cb ma have ok: "cb ctx = (t, None)" "Marshal js t = (b1, None)"
      by simp_all
    from GetOrSet_fn_on_success(2) [where cb = cb and ctx = ctx and c = c and ex = ex,
        OF \<open>misses w key\<close> ok] assms
    show ?thesis
      by (simp add: new_events_def)
  next
    case False
    then obtain e where
      "snd (cb ctx) = Some e \<or> (snd (cb ctx) = None \<and> snd (Marshal js (fst (cb ctx))) = Some e)"
      using cb ma by (cases cerr; cases merr) auto
    from GetOrSet_fn_on_failure [where cb = cb and ctx = ctx and c = c and ex = ex,
        OF \<open>misses w key\<close> this] assms
    show ?thesis
      by (simp add: new_events_def)
  qed
qed

section \<open>Facts about the concrete inputs\<close>

lemma empty_world_facts:
  "misses empty_world k" "trace empty_world = []" "redis empty_world = Map.empty"
  "set_err empty_world = None" "read_err empty_world = None" "set_fault empty_world = None"
  "get_fault empty_world = None"
  by (simp_all add: misses_iff empty_world_def set_err_def read_err_def)

lemma write_down_facts:
  "misses write_down k" "trace write_down = []" "redis write_down = Map.empty"
  "set_err write_down
     = Some (WrapError ''failed to set to redis: i/o timeout'' (ErrorString ''i/o timeout''))"
  "read_err write_down = None" "set_fault write_down = Some (ErrorString ''i/o timeout'')"
  by (simp_all add: misses_iff write_down_def empty_world_def set_err_def read_err_def Errorf_w_def)

lemma read_down_facts:
  "get_fault read_down = Some (ErrorString ''dial tcp: connection refused'')"
  "set_fault read_down = None" "trace read_down = []"
  by (simp_all add: read_down_def empty_world_def)

lemma cached_world_facts:
  "get_fault cached_world = None" "redis cached_world ''k'' = Some (''[1,2]'', Second * 10)"
  "trace cached_world = []"
  by (simp_all add: cached_world_def empty_world_def)

lemma ten_seconds_cache_expiration: "expiration ten_seconds_cache = Second * 10"
  by (simp add: ten_seconds_cache_def NewCache_def)

lemma loader_facts:
  "loader_ok () = (''[1,2]'', None)"
  "loader_failing () = ([], Some (ErrorString ''sql: no rows in result set''))"
  "loader_unit () = ((), None)"
  by (simp_all add: loader_ok_def loader_failing_def loader_unit_def)

lemma unsupported_json_simps:
  "Marshal unsupported_json v = ([], Some (ErrorString ''json: unsupported type''))"
  "zero_value unsupported_json = ()"
  by (simp_all add: unsupported_json_def)

lemma fmt_int_10: "fmt_int 10 = ''10''"
  by code_simp

lemma posts_limit_key:
  "SelectByColumnWithLimit_cacheKey ''user_id'' v ''posts'' 10 = ''posts:limit:10''"
  by (simp add: SelectByColumnWithLimit_cacheKey_def fmt_int_10)

lemma posts_callback:
  "SelectByColumnWithLimit_callback [] posts_db ''user_id'' ''1'' ''posts'' 10 [] ()
     = (''[10,11]'', None)"
  "SelectByColumnWithLimit_callback [] posts_db ''user_id'' ''2'' ''posts'' 10 [] ()
     = (''[20]'', None)"
  by (simp_all add: SelectByColumnWithLimit_callback_def posts_db_def return_result_def)

section \<open>The hit path\<close>

text \<open>
  C2: when the read of the key finds stored bytes and meets no error, \<open>GetOrSet\<close> returns
  what \<open>json.Unmarshal\<close> makes of exactly those bytes, its error included when it fails;
  the only thing the call does is the read, so the loader is not invoked and the stored
  entries stay as they were.
\<close>

theorem GetOrSet_hit_returns_stored:
  assumes "get_fault w = None" and "redis w cacheKey = Some (b, ttl)"
  shows "RedisClient_Get w cacheKey = ((b, True, None), emit (RedisGet cacheKey) w)
       \<and> fst (GetOrSet js c ctx cacheKey callback extraSetFunc w) = Unmarshal js b (zero_value js)
       \<and> (\<forall>e. snd (Unmarshal js b (zero_value js)) = Some e \<longrightarrow>
             snd (fst (GetOrSet js c ctx cacheKey callback extraSetFunc w)) = Some e)
       \<and> new_events w (snd (GetOrSet js c ctx cacheKey callback extraSetFunc w))
           = [RedisGet cacheKey]
       \<and> CallbackCall
           \<notin> set (new_events w (snd (GetOrSet js c ctx cacheKey callback extraSetFunc w)))
       \<and> redis (snd (GetOrSet js c ctx cacheKey callback extraSetFunc w)) = redis w"
  by (simp add: GetOrSet_fst GetOrSet_snd GetOrSet_fn_on_hit [OF assms] GetOrSet_tail_bytes
        RedisClient_Get_found [OF assms] new_events_def)

theorem GetOrSet_hit_returns_stored_witness:
  "fst (GetOrSet raw_json ten_seconds_cache () ''k'' loader_failing [] cached_world)
     = (''[1,2]'', None)
   \<and> new_events cached_world
        (snd (GetOrSet raw_json ten_seconds_cache () ''k'' loader_failing [] cached_world))
     = [RedisGet ''k'']
   \<and> snd (fst (GetOrSet unsupported_json ten_seconds_cache () ''k'' loader_unit [] cached_world))
     = Some (ErrorString ''json: cannot unmarshal'')"
proof -
  note hit = GetOrSet_hit_returns_stored [where js = raw_json and c = ten_seconds_cache
      and ctx = "()" and callback = loader_failing and extraSetFunc = "[]",
      OF cached_world_facts(1,2)]
  note bad = GetOrSet_hit_returns_stored [where js = unsupported_json and c = ten_seconds_cache
      and ctx = "()" and callback = loader_unit and extraSetFunc = "[]",
      OF cached_world_facts(1,2)]
  have undecodable: "snd (Unmarshal unsupported_json ''[1,2]'' (zero_value unsupported_json))
                       = Some (ErrorString ''json: cannot unmarshal'')"
    by (simp add: unsupported_json_def)
  from hit [THEN conjunct2, THEN conjunct1]
       hit [THEN conjunct2, THEN conjunct2, THEN conjunct2, THEN conjunct1]
       bad [THEN conjunct2, THEN conjunct2, THEN conjunct1, rule_format, OF undecodable]
  show ?thesis
    by (simp add: raw_json_simps)
qed

section \<open>Failures of the loader and of serialization\<close>

text \<open>
  C3: on a miss, when the loader returns an error, or returns a value that
  \<open>json.Marshal\<close> rejects, the leader pass ends with that very error and no value. Every
  caller that receives this outcome returns the zero value with the same error, and so
  does \<open>GetOrSet\<close>. No write command is issued and the stored entries are unchanged.
\<close>

theorem GetOrSet_failure_propagates:
  assumes "misses w cacheKey"
      and "snd (callback ctx) = Some e
           \<or> (snd (callback ctx) = None \<and> snd (Marshal js (fst (callback ctx))) = Some e)"
  shows "fst (GetOrSet_fn js c ctx cacheKey callback extraSetFunc w) = (AnyNil, Some e)
       \<and> GetOrSet_tail js (AnyNil, Some e) = (zero_value js, Some e)
       \<and> fst (GetOrSet js c ctx cacheKey callback extraSetFunc w) = (zero_value js, Some e)
       \<and> redis (snd (GetOrSet js c ctx cacheKey callback extraSetFunc w)) = redis w
       \<and> filter is_RedisSet
            (new_events w (snd (GetOrSet js c ctx cacheKey callback extraSetFunc w))) = []"
  by (simp add: GetOrSet_fst GetOrSet_snd GetOrSet_tail_err new_events_def
        GetOrSet_fn_on_failure [where cb = callback and ctx = ctx, OF assms])

theorem GetOrSet_failure_propagates_witness:
  "fst (GetOrSet raw_json ten_seconds_cache () ''k'' loader_failing [] empty_world)
     = ([], Some (ErrorString ''sql: no rows in result set''))
   \<and> redis (snd (GetOrSet raw_json ten_seconds_cache () ''k'' loader_failing [] empty_world))
     = Map.empty
   \<and> fst (GetOrSet unsupported_json ten_seconds_cache () ''k'' loader_unit [] empty_world)
     = ((), Some (ErrorString ''json: unsupported type''))
   \<and> redis (snd (GetOrSet unsupported_json ten_seconds_cache () ''k'' loader_unit [] empty_world))
     = Map.empty"
proof -
  have 1: "snd (loader_failing ()) = Some (ErrorString ''sql: no rows in result set'')
           \<or> (snd (loader_failing ()) = None
               \<and> snd (Marshal raw_json (fst (loader_failing ())))
                   = Some (ErrorString ''sql: no rows in result set''))"
    by (simp add: loader_facts)
  have 2: "snd (loader_unit ()) = Some (ErrorString ''json: unsupported type'')
           \<or> (snd (loader_unit ()) = None
               \<and> snd (Marshal unsupported_json (fst (loader_unit ())))
                   = Some (ErrorString ''json: unsupported type''))"
    by (simp add: loader_facts unsupported_json_simps)
  note a = GetOrSet_failure_propagates [where callback = loader_failing and ctx = "()"
      and js = raw_json and c = ten_seconds_cache and extraSetFunc = "[]" and cacheKey = "''k''",
      OF empty_world_facts(1) 1]
  note b = GetOrSet_failure_propagates [where callback = loader_unit and ctx = "()"
      and js = unsupported_json and c = ten_seconds_cache and extraSetFunc = "[]"
      and cacheKey = "''k''", OF empty_world_facts(1) 2]
  from a [THEN conjunct2, THEN conjunct2, THEN conjunct1]
       a [THEN conjunct2, THEN conjunct2, THEN conjunct2, THEN conjunct1]
       b [THEN conjunct2, THEN conjunct2, THEN conjunct1]
       b [THEN conjunct2, THEN conjunct2, THEN conjunct2, THEN conjunct1]
  show ?thesis
    by (simp add: raw_json_simps unsupported_json_simps empty_world_facts)
qed

section \<open>Failures of the cache\<close>

lemma GetOrSet_fn_miss_outcome:
  assumes "misses w key" and "misses w' key"
  shows "fst (GetOrSet_fn js c ctx key cb ex w) = fst (GetOrSet_fn js c ctx key cb ex w')"
proof -
  obtain t cerr where cb: "cb ctx = (t, cerr)"
    by (cases "cb ctx")
  obtain b merr where ma: "Marshal js t = (b, merr)"
    by (cases "Marshal js t")
  show ?thesis
  proof (cases "cerr = None \<and> merr = None")
    case True
    with cb ma have ok: "cb ctx = (t, None)" "Marshal js t = (b, None)"
      by simp_all
    show ?thesis
      by (simp only: GetOrSet_fn_on_success(1) [where cb = cb and ctx = ctx, OF assms(1) ok]
            GetOrSet_fn_on_success(1) [where cb = cb and ctx = ctx, OF assms(2) ok])
  next
    case False
    then obtain e where fail:
      "snd (cb ctx) = Some e \<or> (snd (cb ctx) = None \<and> snd (Marshal js (fst (cb ctx))) = Some e)"
      using cb ma by (cases cerr; cases merr) auto
    show ?thesis
      by (simp add: GetOrSet_fn_on_failure [where cb = cb and ctx = ctx, OF assms(1) fail]
            GetOrSet_fn_on_failure [where cb = cb and ctx = ctx, OF assms(2) fail])
  qed
qed

lemma GetOrSet_fn_miss_events:
  assumes "misses w key"
  shows "set (err_log (read_err w)) \<subseteq> set (new_events w (snd (GetOrSet_fn js c ctx key cb ex w)))"
    and "count_list (new_events w (snd (GetOrSet_fn js c ctx key cb ex w))) CallbackCall = 1"
proof -
  obtain t cerr where cb: "cb ctx = (t, cerr)"
    by (cases "cb ctx")
  obtain b merr where ma: "Marshal js t = (b, merr)"
    by (cases "Marshal js t")
  have "set (err_log (read_err w)) \<subseteq> set (new_events w (snd (GetOrSet_fn js c ctx key cb ex w)))
      \<and> count_list (new_events w (snd (GetOrSet_fn js c ctx key cb ex w))) CallbackCall = 1"
  proof (cases "cerr = None \<and> merr = None")
    case True
    with cb ma have ok: "cb ctx = (t, None)" "Marshal js t = (b, None)"
      by simp_all
    show ?thesis
      by (auto simp add: new_events_def
            GetOrSet_fn_on_success(2) [where cb = cb and ctx = ctx, OF assms ok])
  next
    case False
    then obtain e where fail:
      "snd (cb ctx) = Some e \<or> (snd (cb ctx) = None \<and> snd (Marshal js (fst (cb ctx))) = Some e)"
      using cb ma by (cases cerr; cases merr) auto
    show ?thesis
      by (auto simp add: new_events_def
            GetOrSet_fn_on_failure [where cb = cb and ctx = ctx, OF assms fail])
  qed
  then show "set (err_log (read_err w))
               \<subseteq> set (new_events w (snd (GetOrSet_fn js c ctx key cb ex w)))"
    and "count_list (new_events w (snd (GetOrSet_fn js c ctx key cb ex w))) CallbackCall = 1"
    by simp_all
qed

lemma hidden_json_simps:
  "Marshal hidden_json v = (''{}'', None)" "Unmarshal hidden_json ''{}'' v = (v, None)"
  "zero_value hidden_json = 0"
  by (simp_all add: hidden_json_def)

lemma loader_seven_result: "loader_seven () = (7, None)"
  by (simp add: loader_seven_def)

lemma read_down_misses: "misses read_down k"
  by (simp add: misses_iff read_down_def)

text \<open>
  C4, as the code has it: when the read command fails with an error other than
  \<open>redis.Nil\<close>, the wrapper reports the key as not found, \<open>GetOrSet\<close> logs the wrapped error
  and invokes the loader exactly once, whatever the loader then returns. The failed read
  adds no error of its own: the call returns the pair it returns when the server is
  reachable and the key is absent. On loader success, when the value is serialized to
  \<open>b\<close>, that pair is what \<open>json.Unmarshal\<close> makes of \<open>b\<close>.
\<close>

theorem GetOrSet_read_failure_is_miss:
  assumes "get_fault w = Some e" and "e \<noteq> RedisNil"
  shows "fst (RedisClient_Get w cacheKey)
           = ([], False, Some (Errorf_w ''failed to get from redis: '' e))
       \<and> LogPrintln (''failed to get from redis: '' @ Error e)
           \<in> set (new_events w (snd (GetOrSet js c ctx cacheKey callback extraSetFunc w)))
       \<and> count_list (new_events w (snd (GetOrSet js c ctx cacheKey callback extraSetFunc w)))
           CallbackCall = 1
       \<and> fst (GetOrSet js c ctx cacheKey callback extraSetFunc w)
           = fst (GetOrSet js c ctx cacheKey callback extraSetFunc
                    (w\<lparr>redis := (redis w)(cacheKey := None), get_fault := None\<rparr>))
       \<and> (\<forall>t b. callback ctx = (t, None) \<and> Marshal js t = (b, None) \<longrightarrow>
             fst (GetOrSet js c ctx cacheKey callback extraSetFunc w)
               = Unmarshal js b (zero_value js))"
proof -
  let ?absent = "w\<lparr>redis := (redis w)(cacheKey := None), get_fault := None\<rparr>"
  have miss: "misses w cacheKey"
    using assms(1) by (simp add: misses_iff)
  have miss': "misses ?absent cacheKey"
    by (simp add: misses_iff)
  have rerr: "read_err w = Some (Errorf_w ''failed to get from redis: '' e)"
    using assms by (simp add: read_err_def)
  have get: "fst (RedisClient_Get w cacheKey)
               = ([], False, Some (Errorf_w ''failed to get from redis: '' e))"
    by (simp add: RedisClient_Get_miss [OF miss] rerr)
  have logged: "LogPrintln (''failed to get from redis: '' @ Error e)
              \<in> set (new_events w (snd (GetOrSet js c ctx cacheKey callback extraSetFunc w)))"
    using GetOrSet_fn_miss_events(1) [OF miss, of js c ctx callback extraSetFunc]
    by (simp add: GetOrSet_snd rerr Errorf_w_def)
  have called: "count_list
                  (new_events w (snd (GetOrSet js c ctx cacheKey callback extraSetFunc w)))
                  CallbackCall = 1"
    by (simp add: GetOrSet_snd GetOrSet_fn_miss_events(2) [OF miss])
  have same: "fst (GetOrSet js c ctx cacheKey callback extraSetFunc w)
                = fst (GetOrSet js c ctx cacheKey callback extraSetFunc ?absent)"
    by (simp only: GetOrSet_fst GetOrSet_fn_miss_outcome [OF miss miss'])
  have res: "fst (GetOrSet js c ctx cacheKey callback extraSetFunc w)
               = Unmarshal js b (zero_value js)"
    if "callback ctx = (t, None)" and "Marshal js t = (b, None)" for t b
    by (simp add: GetOrSet_fst GetOrSet_tail_bytes
          GetOrSet_fn_on_success(1) [where cb = callback and ctx = ctx, OF miss that])
  from get logged called same res show ?thesis
    by blast
qed

theorem GetOrSet_read_failure_is_miss_witness:
  "fst (GetOrSet raw_json ten_seconds_cache () ''k'' loader_ok [] read_down) = (''[1,2]'', None)
   \<and> LogPrintln ''failed to get from redis: dial tcp: connection refused''
       \<in> set (new_events read_down
                (snd (GetOrSet raw_json ten_seconds_cache () ''k'' loader_ok [] read_down)))
   \<and> count_list
        (new_events read_down
           (snd (GetOrSet raw_json ten_seconds_cache () ''k'' loader_ok [] read_down)))
        CallbackCall = 1
   \<and> LogPrintln ''failed to get from redis: dial tcp: connection refused''
       \<in> set (new_events read_down
                (snd (GetOrSet raw_json ten_seconds_cache () ''k'' loader_failing [] read_down)))
   \<and> count_list
        (new_events read_down
           (snd (GetOrSet raw_json ten_seconds_cache () ''k'' loader_failing [] read_down)))
        CallbackCall = 1"
proof -
  have ne: "ErrorString ''dial tcp: connection refused'' \<noteq> RedisNil"
    by simp
  note run = GetOrSet_read_failure_is_miss [where callback = loader_ok and ctx = "()"
      and js = raw_json and c = ten_seconds_cache and cacheKey = "''k''"
      and extraSetFunc = "[]", OF read_down_facts(1) ne]
  note err = GetOrSet_read_failure_is_miss [where callback = loader_failing and ctx = "()"
      and js = raw_json and c = ten_seconds_cache and cacheKey = "''k''"
      and extraSetFunc = "[]", OF read_down_facts(1) ne]
  have ok: "loader_ok () = (''[1,2]'', None) \<and> Marshal raw_json ''[1,2]'' = (''[1,2]'', None)"
    by (simp add: loader_facts raw_json_simps)
  note decoded = run [THEN conjunct2, THEN conjunct2, THEN conjunct2, THEN conjunct2,
      rule_format, OF ok]
  have msg: "Error (ErrorString ''dial tcp: connection refused'') = ''dial tcp: connection refused''"
    by simp
  from decoded
       run [THEN conjunct2, THEN conjunct1, unfolded msg]
       run [THEN conjunct2, THEN conjunct2, THEN conjunct1]
       err [THEN conjunct2, THEN conjunct1, unfolded msg]
       err [THEN conjunct2, THEN conjunct2, THEN conjunct1]
  show ?thesis
    by (intro conjI) (simp_all add: raw_json_simps)
qed

text \<open>
  The claim as written says that the loader's result itself is returned. With a value
  type that has an unexported field, the read fails, the loader returns 7, and the call
  returns 0 with no error: what comes back is the decoding of the encoded value.
\<close>

theorem read_failure_returns_decoded_not_loaded:
  "get_fault read_down = Some (ErrorString ''dial tcp: connection refused'')
   \<and> loader_seven () = (7, None)
   \<and> fst (GetOrSet hidden_json ten_seconds_cache () ''k'' loader_seven [] read_down) = (0, None)"
proof -
  note run = GetOrSet_fn_on_success(1) [where cb = loader_seven and ctx = "()"
      and js = hidden_json and c = ten_seconds_cache and ex = "[]" and key = "''k''",
      OF read_down_misses loader_seven_result hidden_json_simps(1)]
  show ?thesis
    by (simp add: read_down_facts loader_seven_result GetOrSet_fst run GetOrSet_tail_bytes
          hidden_json_simps)
qed




section \<open>The side-effect hook\<close>

text \<open>
  C6, as the code has it: on a miss where the loader succeeds and its value is serialized
  to \<open>b\<close>, the events of the call are the read, the loader, the write command for \<open>b\<close>
  with the engine's expiration, and then, when a hook was passed, one call of the first
  hook with \<open>b\<close>, each followed by the log line of its error if it failed. The hook is
  therefore called exactly once, with the serialized bytes, after the write was attempted
  and whatever the write's outcome; the returned pair is the one of a call without hook.
\<close>

theorem GetOrSet_hook_after_write_attempt:
  assumes "misses w cacheKey" and "callback ctx = (t, None)" and "Marshal js t = (b, None)"
  shows "new_events w (snd (GetOrSet js c ctx cacheKey callback extraSetFunc w))
           = [RedisGet cacheKey] @ err_log (read_err w)
             @ [CallbackCall, RedisSet cacheKey b (expiration c)]
             @ err_log (set_err w) @ hook_events extraSetFunc b
       \<and> (extraSetFunc \<noteq> [] \<longrightarrow>
            count_list (new_events w (snd (GetOrSet js c ctx cacheKey callback extraSetFunc w)))
              (ExtraSetCall b) = 1)
       \<and> (\<forall>b'. ExtraSetCall b'
              \<in> set (new_events w (snd (GetOrSet js c ctx cacheKey callback extraSetFunc w)))
            \<longrightarrow> b' = b \<and> extraSetFunc \<noteq> [])
       \<and> fst (GetOrSet js c ctx cacheKey callback extraSetFunc w) = Unmarshal js b (zero_value js)
       \<and> fst (GetOrSet js c ctx cacheKey callback extraSetFunc w)
           = fst (GetOrSet js c ctx cacheKey callback [] w)"
proof -
  note run = GetOrSet_fn_on_success [where cb = callback and ctx = ctx and c = c, OF assms]
  have tr: "new_events w (snd (GetOrSet js c ctx cacheKey callback extraSetFunc w))
           = [RedisGet cacheKey] @ err_log (read_err w)
             @ [CallbackCall, RedisSet cacheKey b (expiration c)]
             @ err_log (set_err w) @ hook_events extraSetFunc b"
    by (simp add: GetOrSet_snd run(2) new_events_def)
  have cnt: "count_list (new_events w (snd (GetOrSet js c ctx cacheKey callback extraSetFunc w)))
              (ExtraSetCall b) = 1" if "extraSetFunc \<noteq> []"
    using that unfolding tr by (cases extraSetFunc) simp_all
  have only: "b' = b \<and> extraSetFunc \<noteq> []"
    if "ExtraSetCall b'
          \<in> set (new_events w (snd (GetOrSet js c ctx cacheKey callback extraSetFunc w)))"
    for b'
    using that unfolding tr
    by (cases extraSetFunc; cases "read_err w"; cases "set_err w")
       (auto simp add: err_log_def split: option.splits)
  have res: "fst (GetOrSet js c ctx cacheKey callback ex w) = Unmarshal js b (zero_value js)"
    for ex
    by (simp add: GetOrSet_fst run(1) GetOrSet_tail_bytes)
  have same: "fst (GetOrSet js c ctx cacheKey callback extraSetFunc w)
           = fst (GetOrSet js c ctx cacheKey callback [] w)"
    by (simp only: res)
  show ?thesis
    using tr cnt only res [of extraSetFunc] same by blast
qed

theorem GetOrSet_hook_after_write_attempt_witness:
  "new_events empty_world
     (snd (GetOrSet raw_json ten_seconds_cache () ''k'' loader_ok [hook_failing] empty_world))
     = [RedisGet ''k'', CallbackCall, RedisSet ''k'' ''[1,2]'' (Second * 10),
        ExtraSetCall ''[1,2]'', LogPrintln ''hook failed'']
   \<and> fst (GetOrSet raw_json ten_seconds_cache () ''k'' loader_ok [hook_failing] empty_world)
       = (''[1,2]'', None)"
proof -
  note run = GetOrSet_hook_after_write_attempt [where callback = loader_ok and ctx = "()"
      and js = raw_json and c = ten_seconds_cache and extraSetFunc = "[hook_failing]"
      and cacheKey = "''k''", OF empty_world_facts(1) loader_facts(1) raw_json_simps(1)]
  from run [THEN conjunct1] run [THEN conjunct2, THEN conjunct2, THEN conjunct2, THEN conjunct1]
  show ?thesis
    by (simp add: empty_world_facts ten_seconds_cache_expiration hook_failing_def raw_json_simps)
qed

text \<open>
  The claim as written also says that the hook runs only after a successful write. With a
  server whose writes time out, the write fails, its error is logged, nothing is stored
  under the key, and the hook is called all the same.
\<close>

theorem hook_runs_after_failed_write:
  "new_events write_down
     (snd (GetOrSet raw_json ten_seconds_cache () ''k'' loader_ok [hook_ok] write_down))
     = [RedisGet ''k'', CallbackCall, RedisSet ''k'' ''[1,2]'' (Second * 10),
        LogPrintln ''failed to set to redis: i/o timeout'', ExtraSetCall ''[1,2]'']
   \<and> redis (snd (GetOrSet raw_json ten_seconds_cache () ''k'' loader_ok [hook_ok] write_down)) ''k''
       = None"
proof -
  note run = GetOrSet_fn_on_success [where cb = loader_ok and ctx = "()" and js = raw_json
      and c = ten_seconds_cache and ex = "[hook_ok]" and key = "''k''",
      OF write_down_facts(1) loader_facts(1) raw_json_simps(1)]
  show ?thesis
    by (simp add: GetOrSet_snd new_events_def run(2,3) write_down_facts
          ten_seconds_cache_expiration hook_ok_def)
qed

section \<open>Cache keys of the data-access helpers\<close>

text \<open>
  Each helper's key is its table name followed by further parts, joined by colons. The
  key of \<open>SelectByColumn\<close> tells two column values apart; the key of
  \<open>SelectByColumnWithLimit\<close> contains neither the column name nor the column value.
\<close>

lemma cacheKey_shapes:
  "GetByColumn_cacheKey columnName columnValue tableName
     = Join [tableName, columnName, columnValue] '':''"
  "GetCountByColumn_cacheKey columnName columnValue tableName
     = Join [tableName, ''count'', columnName, columnValue] '':''"
  "Select_cacheKey tableName = Join [tableName, ''all''] '':''"
  "SelectByColumn_cacheKey columnName columnValue tableName
     = Join [tableName, columnName, columnValue] '':''"
  "SelectByColumnWithLimit_cacheKey columnName columnValue tableName limit
     = Join [tableName, ''limit'', fmt_int limit] '':''"
  by (simp_all add: GetByColumn_cacheKey_def GetCountByColumn_cacheKey_def Select_cacheKey_def
        SelectByColumn_cacheKey_def SelectByColumnWithLimit_cacheKey_def)

lemma SelectByColumn_cacheKey_keeps_value:
  "SelectByColumn_cacheKey columnName columnValue tableName
     = SelectByColumn_cacheKey columnName columnValue' tableName
   \<longleftrightarrow> columnValue = columnValue'"
  by (simp add: SelectByColumn_cacheKey_def)

lemma SelectByColumnWithLimit_cacheKey_ignores_filter:
  "SelectByColumnWithLimit_cacheKey columnName columnValue tableName limit
     = SelectByColumnWithLimit_cacheKey columnName' columnValue' tableName limit"
  by (simp add: SelectByColumnWithLimit_cacheKey_def)

text \<open>
  C7 at a concrete input: the ten newest posts of user 1 and of user 2 are asked for
  under the same key \<open>posts:limit:10\<close>. The query for user 2 would return \<open>[20]\<close>, but
  after the call for user 1 has filled the cache, the call for user 2 is a hit and returns
  the rows of user 1.
\<close>

theorem SelectByColumnWithLimit_key_collision:
  "SelectByColumnWithLimit_cacheKey ''user_id'' ''1'' ''posts'' 10 = ''posts:limit:10''
   \<and> SelectByColumnWithLimit_cacheKey ''user_id'' ''2'' ''posts'' 10 = ''posts:limit:10''
   \<and> fst (SelectByColumnWithLimit_callback [] posts_db ''user_id'' ''2'' ''posts'' 10 [] ())
       = ''[20]''
   \<and> fst (SelectByColumnWithLimit (GetOrSet raw_json) [] posts_repository ()
             ''user_id'' ''2'' ''posts'' 10 []
             (snd (SelectByColumnWithLimit (GetOrSet raw_json) [] posts_repository ()
                     ''user_id'' ''1'' ''posts'' 10 [] empty_world)))
       = (''[10,11]'', None)"
proof -
  let ?cb1 = "SelectByColumnWithLimit_callback [] posts_db ''user_id'' ''1'' ''posts'' 10 []"
  let ?cb2 = "SelectByColumnWithLimit_callback [] posts_db ''user_id'' ''2'' ''posts'' 10 []"
  let ?c = "Cache posts_repository"
  let ?w1 = "snd (GetOrSet_fn raw_json ?c () ''posts:limit:10'' ?cb1 [] empty_world)"
  have c: "expiration ?c = Second * 10"
    by (simp add: posts_repository_def redis_NewRedisRepository_def NewCache_def)
  note first = GetOrSet_fn_on_success(3) [where cb = ?cb1 and ctx = "()" and js = raw_json
      and c = ?c and ex = "[]" and key = "''posts:limit:10''",
      OF empty_world_facts(1) posts_callback(1) raw_json_simps(1)]
  have stored: "redis ?w1 ''posts:limit:10'' = Some (''[10,11]'', Second * 10)"
    by (simp add: first empty_world_facts c)
  have reachable: "get_fault ?w1 = None"
    by (simp add: GetOrSet_fn_faults empty_world_facts)
  have second: "fst (GetOrSet raw_json ?c () ''posts:limit:10'' ?cb2 [] ?w1) = (''[10,11]'', None)"
    by (simp add: GetOrSet_fst GetOrSet_fn_on_hit [OF reachable stored] GetOrSet_tail_bytes
          raw_json_simps)
  have calls:
    "SelectByColumnWithLimit (GetOrSet raw_json) [] posts_repository () ''user_id'' v ''posts'' 10 [] w
       = GetOrSet raw_json ?c () ''posts:limit:10''
           (SelectByColumnWithLimit_callback [] posts_db ''user_id'' v ''posts'' 10 []) [] w"
    for v w
    by (simp add: SelectByColumnWithLimit_def posts_limit_key posts_repository_def
          redis_NewRedisRepository_def)
  show ?thesis
    by (simp add: posts_limit_key posts_callback calls GetOrSet_snd second)
qed

section \<open>The type assertion\<close>

text \<open>
  C9: the pair the leader pass returns never takes the branch of the failed type
  assertion: when its error is nil its value is a byte string. Whatever pair takes that
  branch, the caller returns the zero value and an error naming the dynamic type; the
  assertion is in the two-result form, which does not panic.
\<close>

theorem type_mismatch_unreachable:
  "\<not> type_mismatch (fst (GetOrSet_fn js c ctx cacheKey callback extraSetFunc w))
   \<and> (snd (fst (GetOrSet_fn js c ctx cacheKey callback extraSetFunc w)) = None \<longrightarrow>
        (\<exists>b. fst (fst (GetOrSet_fn js c ctx cacheKey callback extraSetFunc w)) = AnyBytes b))
   \<and> (type_mismatch r \<longrightarrow>
        GetOrSet_tail js r
          = (zero_value js,
             Some (ErrorString (''failed to get from cache: invalid type '' @ type_name (fst r)))))"
proof -
  obtain b0 exist gerr w1 where get: "RedisClient_Get w cacheKey = ((b0, exist, gerr), w1)"
    by (metis prod.collapse)
  obtain t cerr where cb: "callback ctx = (t, cerr)"
    by (cases "callback ctx")
  obtain b merr where ma: "Marshal js t = (b, merr)"
    by (cases "Marshal js t")
  have shape: "(\<exists>e. fst (GetOrSet_fn js c ctx cacheKey callback extraSetFunc w) = (AnyNil, Some e))
             \<or> (\<exists>b. fst (GetOrSet_fn js c ctx cacheKey callback extraSetFunc w) = (AnyBytes b, None))"
    by (cases exist; cases cerr; cases merr)
       (simp_all add: GetOrSet_fn_def get cb ma Let_def split: prod.splits)
  have tail: "GetOrSet_tail js r
          = (zero_value js,
             Some (ErrorString (''failed to get from cache: invalid type '' @ type_name (fst r))))"
    if "type_mismatch r"
    using that
    by (cases r) (auto simp add: type_mismatch_def GetOrSet_tail_def split: option.splits any.splits)
  from shape tail show ?thesis
    by (auto simp add: type_mismatch_def)
qed

theorem type_mismatch_unreachable_witness:
  "type_mismatch (AnyNil, None)
   \<and> GetOrSet_tail raw_json (AnyNil, None)
       = ([], Some (ErrorString ''failed to get from cache: invalid type <nil>''))
   \<and> fst (GetOrSet_fn raw_json ten_seconds_cache () ''k'' loader_ok [] empty_world)
       = (AnyBytes ''[1,2]'', None)
   \<and> \<not> type_mismatch
         (fst (GetOrSet_fn raw_json ten_seconds_cache () ''k'' loader_ok [] empty_world))"
proof -
  note run = GetOrSet_fn_on_success(1) [where cb = loader_ok and ctx = "()" and js = raw_json
      and c = ten_seconds_cache and ex = "[]" and key = "''k''",
      OF empty_world_facts(1) loader_facts(1) raw_json_simps(1)]
  note claim = type_mismatch_unreachable [where js = raw_json and c = ten_seconds_cache
      and ctx = "()" and cacheKey = "''k''" and callback = loader_ok and extraSetFunc = "[]"
      and w = empty_world and r = "(AnyNil, None)"]
  have mismatch: "type_mismatch (AnyNil, None)"
    by (simp add: type_mismatch_def)
  from claim [THEN conjunct2, THEN conjunct2, rule_format, OF mismatch] claim [THEN conjunct1]
    mismatch run
  show ?thesis
    by (simp add: raw_json_simps)
qed

section \<open>The expiration\<close>

text \<open>
  C10: both constructors pass \<open>time.Second * 10\<close>, that is 10000000000 nanoseconds, as the
  expiration of the engine they build. Every write command a call of \<open>GetOrSet\<close> issues
  is for the key of the call and carries the expiration of the engine, whatever the key,
  the loader, the hooks, the codec and the world are; with an engine built by
  \<open>NewRedisRepository\<close> that is ten seconds.
\<close>

theorem fixed_ten_second_ttl:
  "expiration (cache (NewRedisRepository d cl)) = Second * 10
   \<and> Cache (redis_NewRedisRepository newCache d' cl') = newCache cl' (Second * 10)
   \<and> sint (Second * 10 :: Duration) = 10000000000
   \<and> (\<forall>ev \<in> set (new_events w (snd (GetOrSet js c ctx cacheKey callback extraSetFunc w))).
         \<forall>k b dur. ev = RedisSet k b dur \<longrightarrow> k = cacheKey \<and> dur = expiration c)
   \<and> (\<forall>ev \<in> set (new_events w (snd (GetOrSet js (cache (NewRedisRepository d cl)) ctx cacheKey
                                     callback extraSetFunc w))).
         \<forall>k b dur. ev = RedisSet k b dur \<longrightarrow> dur = Second * 10)"
proof -
  have ttl: "expiration (cache (NewRedisRepository d cl)) = Second * 10"
    by (simp add: NewRedisRepository_def NewCache_def)
  have pkg: "Cache (redis_NewRedisRepository newCache d' cl') = newCache cl' (Second * 10)"
    by (simp add: redis_NewRedisRepository_def)
  have ns: "sint (Second * 10 :: Duration) = 10000000000"
    by (simp add: Second_def)
  have wr: "k = key \<and> dur = expiration c'"
    if "RedisSet k b dur \<in> set (new_events w (snd (GetOrSet js c' ctx key callback extraSetFunc w)))"
    for k b dur c' key
    using that GetOrSet_fn_writes [of k b dur w js c' ctx key callback extraSetFunc]
    by (simp add: GetOrSet_snd)
  from ttl pkg ns show ?thesis
    using wr [of _ _ _ c cacheKey] wr [of _ _ _ "cache (NewRedisRepository d cl)" cacheKey]
    by metis
qed

theorem fixed_ten_second_ttl_witness:
  "new_events empty_world
     (snd (GetOrSet raw_json (cache (NewRedisRepository posts_db ())) () ''k'' loader_ok []
             empty_world))
     = [RedisGet ''k'', CallbackCall, RedisSet ''k'' ''[1,2]'' (Second * 10)]
   \<and> expiration (cache (NewRedisRepository posts_db ())) = Second * 10
   \<and> sint (Second * 10 :: Duration) = 10000000000"
proof -
  note ttl = fixed_ten_second_ttl [where d = posts_db and cl = "()", THEN conjunct1]
  note ns = fixed_ten_second_ttl [THEN conjunct2, THEN conjunct2, THEN conjunct1]
  note run = GetOrSet_fn_on_success(2) [where cb = loader_ok and ctx = "()" and js = raw_json
      and c = "cache (NewRedisRepository posts_db ())" and ex = "[]" and key = "''k''",
      OF empty_world_facts(1) loader_facts(1) raw_json_simps(1)]
  have ev: "new_events empty_world
     (snd (GetOrSet raw_json (cache (NewRedisRepository posts_db ())) () ''k'' loader_ok []
             empty_world))
     = [RedisGet ''k'', CallbackCall, RedisSet ''k'' ''[1,2]'' (Second * 10)]"
    by (simp add: GetOrSet_snd new_events_def run empty_world_facts ttl)
  from ev ttl ns show ?thesis
    by (intro conjI)
qed

end
